theory Spec2Isabelle
  imports Main "HOL-Library.AList" "HOL-Library.Sublist"
begin

section \<open>The host environment: file system, console, watchers\<close>

text \<open>
  The practice module \<^verbatim>\<open>practice/basic/fs\<close> is a set of wrappers around Node's
  \<^verbatim>\<open>fs\<close> functions. Each wrapper reads or changes the file system and writes to the
  console, so the model threads one value, the \<open>world\<close>, through every call:
  \<^item> \<open>entries\<close>: the file system, an association list from path strings to nodes;
  \<^item> \<open>fault\<close>: what the operating system refuses, per system call and path
    (a permission that is missing, a device error);
  \<^item> \<open>console\<close>: the lines written by \<^verbatim>\<open>console.log\<close>, oldest first;
  \<^item> \<open>watching\<close>: the paths with a listener registered by \<^verbatim>\<open>fs.watch\<close>.

  Paths are compared as the strings the program passes; file contents are text
  (the program reads with \<^verbatim>\<open>"utf-8"\<close> and writes strings).
\<close>

type_synonym path = string

datatype node = File string | Dir

datatype errno = ENOENT | EACCES | EEXIST | EISDIR | ENOTDIR | EIO

datatype syscall = Access | Read | Write | Unlink | Mkdir | Rmdir | Readdir | Watch

datatype oserr = Denied | Broken

fun errno_of :: "oserr \<Rightarrow> errno" where
  "errno_of Denied = EACCES"
| "errno_of Broken = EIO"

datatype jsval =
    Undefined
  | JNull
  | JBool bool
  | JStr string
  | JArray "string list"
  | FSWatcher path

datatype logarg = LVal jsval | LErr errno

record world =
  entries :: "(path \<times> node) list"
  fault :: "syscall \<Rightarrow> path \<Rightarrow> oserr option"
  console :: "logarg list list"
  watching :: "path list"

text \<open>
  A JavaScript call either returns a value or throws; both may have changed the world.
  \<open>Inl e\<close> is the exception with code \<open>e\<close> leaving the function, \<open>Inr v\<close> the value
  returned.
\<close>

type_synonym 'a js = "world \<Rightarrow> (errno + 'a) \<times> world"

definition ret :: "'a \<Rightarrow> 'a js" where
  "ret v w = (Inr v, w)"

text \<open>Sequencing of statements: an exception skips what follows.\<close>

definition andThen :: "'a js \<Rightarrow> ('a \<Rightarrow> 'b js) \<Rightarrow> 'b js" where
  "andThen m f w = (case m w of (Inl e, w1) \<Rightarrow> (Inl e, w1) | (Inr v, w1) \<Rightarrow> f v w1)"

text \<open>\<^verbatim>\<open>try { m } catch (e) { h }\<close>\<close>

definition tryCatch :: "'a js \<Rightarrow> (errno \<Rightarrow> 'a js) \<Rightarrow> 'a js" where
  "tryCatch m h w = (case m w of (Inl e, w1) \<Rightarrow> h e w1 | (Inr v, w1) \<Rightarrow> (Inr v, w1))"

definition consoleLog :: "logarg list \<Rightarrow> jsval js" where
  "consoleLog args w = (Inr Undefined, w\<lparr>console := console w @ [args]\<rparr>)"

text \<open>The truth value JavaScript gives a value in \<^verbatim>\<open>if (v)\<close>.\<close>

fun truthy :: "jsval \<Rightarrow> bool" where
  "truthy Undefined = False"
| "truthy JNull = False"
| "truthy (JBool b) = b"
| "truthy (JStr s) = (s \<noteq> [])"
| "truthy (JArray xs) = True"
| "truthy (FSWatcher p) = True"

definition entry_at :: "world \<Rightarrow> path \<Rightarrow> node option" where
  "entry_at w p = map_of (entries w) p"

text \<open>\<open>inside d q\<close>: the path \<open>q\<close> lies below the directory \<open>d\<close>.\<close>

definition inside :: "path \<Rightarrow> path \<Rightarrow> bool" where
  "inside d q = prefix (d @ ''/'') q"

text \<open>
  The directory a path is created in: the path without its last component. A path
  with no directory part, or directly below \<^verbatim>\<open>.\<close>, is created in the working
  directory, which is there.
\<close>

definition dirname :: "path \<Rightarrow> path" where
  "dirname p = rev (drop 1 (dropWhile (\<lambda>c. c \<noteq> CHR ''/'') (rev p)))"

definition parent_check :: "world \<Rightarrow> path \<Rightarrow> errno option" where
  "parent_check w p =
     (if dirname p = [] \<or> dirname p = ''.'' then None
      else case entry_at w (dirname p) of
             None \<Rightarrow> Some ENOENT
           | Some (File c) \<Rightarrow> Some ENOTDIR
           | Some Dir \<Rightarrow> None)"

subsection \<open>The \<^verbatim>\<open>fs\<close> calls the module uses\<close>

text \<open>
  A call that needs its target fails with \<open>ENOENT\<close> when the target is absent, then with
  the operating system's refusal if there is one, then on the wrong kind of node.
  A failed call leaves the world as it was.
\<close>

definition fs_accessSync :: "path \<Rightarrow> jsval js" where
  "fs_accessSync p w =
     (case entry_at w p of
        None \<Rightarrow> (Inl ENOENT, w)
      | Some n \<Rightarrow>
          (case fault w Access p of
             Some x \<Rightarrow> (Inl (errno_of x), w)
           | None \<Rightarrow> (Inr Undefined, w)))"

text \<open>\<^verbatim>\<open>fs.existsSync\<close> never throws: any failure of the access check is \<^verbatim>\<open>false\<close>.\<close>

definition fs_existsSync :: "path \<Rightarrow> jsval js" where
  "fs_existsSync p w =
     (case fs_accessSync p w of
        (Inl e, w1) \<Rightarrow> (Inr (JBool False), w1)
      | (Inr v, w1) \<Rightarrow> (Inr (JBool True), w1))"

definition fs_readFileSync :: "path \<Rightarrow> jsval js" where
  "fs_readFileSync p w =
     (case entry_at w p of
        None \<Rightarrow> (Inl ENOENT, w)
      | Some n \<Rightarrow>
          (case fault w Read p of
             Some x \<Rightarrow> (Inl (errno_of x), w)
           | None \<Rightarrow>
               (case n of
                  Dir \<Rightarrow> (Inl EISDIR, w)
                | File c \<Rightarrow> (Inr (JStr c), w))))"

text \<open>
  Writing and appending open the file for writing and create it when it is absent
  (flags \<^verbatim>\<open>w\<close> and \<^verbatim>\<open>a\<close>); \<open>put old\<close> is the content stored, given the old one.
\<close>

definition store :: "(string \<Rightarrow> string) \<Rightarrow> path \<Rightarrow> jsval js" where
  "store put p w =
     (case entry_at w p of
        Some Dir \<Rightarrow> (Inl EISDIR, w)
      | Some (File c) \<Rightarrow>
          (case fault w Write p of
             Some x \<Rightarrow> (Inl (errno_of x), w)
           | None \<Rightarrow> (Inr Undefined, w\<lparr>entries := AList.update p (File (put c)) (entries w)\<rparr>))
      | None \<Rightarrow>
          (case parent_check w p of
             Some e \<Rightarrow> (Inl e, w)
           | None \<Rightarrow>
               (case fault w Write p of
                  Some x \<Rightarrow> (Inl (errno_of x), w)
                | None \<Rightarrow>
                    (Inr Undefined, w\<lparr>entries := AList.update p (File (put [])) (entries w)\<rparr>))))"

definition fs_writeFileSync :: "path \<Rightarrow> string \<Rightarrow> jsval js" where
  "fs_writeFileSync p data = store (\<lambda>old. data) p"

definition fs_appendFileSync :: "path \<Rightarrow> string \<Rightarrow> jsval js" where
  "fs_appendFileSync p data = store (\<lambda>old. old @ data) p"

definition fs_unlinkSync :: "path \<Rightarrow> jsval js" where
  "fs_unlinkSync p w =
     (case entry_at w p of
        None \<Rightarrow> (Inl ENOENT, w)
      | Some n \<Rightarrow>
          (case fault w Unlink p of
             Some x \<Rightarrow> (Inl (errno_of x), w)
           | None \<Rightarrow>
               (case n of
                  Dir \<Rightarrow> (Inl EISDIR, w)
                | File c \<Rightarrow> (Inr Undefined, w\<lparr>entries := AList.delete p (entries w)\<rparr>))))"

definition fs_mkdirSync :: "path \<Rightarrow> jsval js" where
  "fs_mkdirSync p w =
     (case entry_at w p of
        Some n \<Rightarrow> (Inl EEXIST, w)
      | None \<Rightarrow>
          (case parent_check w p of
             Some e \<Rightarrow> (Inl e, w)
           | None \<Rightarrow>
               (case fault w Mkdir p of
                  Some x \<Rightarrow> (Inl (errno_of x), w)
                | None \<Rightarrow> (Inr Undefined, w\<lparr>entries := AList.update p Dir (entries w)\<rparr>))))"

text \<open>
  \<^verbatim>\<open>fs.rmdir(p, {recursive: true})\<close> removes the directory with everything below it
  (the documented effect of the option). A file goes by \<open>Unlink\<close>. A directory goes by
  \<open>Rmdir\<close>, and when something lies below it, it has to be listed first, by \<open>Readdir\<close>:
  \<open>rm_fault\<close> is the refusal met at one node, \<open>rm_refused\<close> the first refusal met in
  the tree. When there is one the call reports it; how much of the tree is gone by then
  depends on the order of the traversal, which is not modelled: the entries are left as
  they were.
\<close>

definition has_below :: "world \<Rightarrow> path \<Rightarrow> bool" where
  "has_below w d = list_ex (\<lambda>x. inside d (fst x)) (entries w)"

fun rm_fault :: "world \<Rightarrow> path \<Rightarrow> node \<Rightarrow> oserr option" where
  "rm_fault w q (File c) = fault w Unlink q"
| "rm_fault w q Dir =
     (case (if has_below w q then fault w Readdir q else None) of
        Some x \<Rightarrow> Some x
      | None \<Rightarrow> fault w Rmdir q)"

definition rm_refused :: "world \<Rightarrow> path \<Rightarrow> oserr option" where
  "rm_refused w p =
     (case rm_fault w p Dir of
        Some x \<Rightarrow> Some x
      | None \<Rightarrow>
          (case List.find (\<lambda>(q, n). inside p q \<and> rm_fault w q n \<noteq> None) (entries w) of
             None \<Rightarrow> None
           | Some (q, n) \<Rightarrow> rm_fault w q n))"

definition fs_rmdirRecursiveSync :: "path \<Rightarrow> jsval js" where
  "fs_rmdirRecursiveSync p w =
     (case entry_at w p of
        None \<Rightarrow> (Inl ENOENT, w)
      | Some (File c) \<Rightarrow> (Inl ENOTDIR, w)
      | Some Dir \<Rightarrow>
          (case rm_refused w p of
             Some x \<Rightarrow> (Inl (errno_of x), w)
           | None \<Rightarrow>
               (Inr Undefined,
                w\<lparr>entries := filter (\<lambda>x. fst x \<noteq> p \<and> \<not> inside p (fst x)) (entries w)\<rparr>)))"

text \<open>The names directly inside a directory.\<close>

definition children :: "world \<Rightarrow> path \<Rightarrow> string list" where
  "children w p =
     filter (\<lambda>name. CHR ''/'' \<notin> set name)
       (map (\<lambda>x. drop (length p + 1) (fst x)) (filter (\<lambda>x. inside p (fst x)) (entries w)))"

definition fs_readdirSync :: "path \<Rightarrow> jsval js" where
  "fs_readdirSync p w =
     (case entry_at w p of
        None \<Rightarrow> (Inl ENOENT, w)
      | Some (File c) \<Rightarrow> (Inl ENOTDIR, w)
      | Some Dir \<Rightarrow>
          (case fault w Readdir p of
             Some x \<Rightarrow> (Inl (errno_of x), w)
           | None \<Rightarrow> (Inr (JArray (children w p)), w)))"

text \<open>
  The callback forms (\<^verbatim>\<open>fs.readFile\<close>, \<^verbatim>\<open>fs.writeFile\<close>, \<^verbatim>\<open>fs.appendFile\<close>,
  \<^verbatim>\<open>fs.readdir\<close>, \<^verbatim>\<open>fs.rmdir\<close>, \<^verbatim>\<open>fs.unlink\<close>) return \<^verbatim>\<open>undefined\<close> at once and
  later call back with the error, or with \<^verbatim>\<open>null\<close> and the result. The model takes the
  call at its completion: the operation and its callback run with nothing in between,
  and what the callback returns is dropped.
\<close>

definition callback_form :: "jsval js \<Rightarrow> (errno option \<Rightarrow> jsval \<Rightarrow> jsval js) \<Rightarrow> jsval js" where
  "callback_form operation cb w =
     (case operation w of
        (Inl e, w1) \<Rightarrow> (Inr Undefined, snd (cb (Some e) Undefined w1))
      | (Inr v, w1) \<Rightarrow> (Inr Undefined, snd (cb None v w1)))"

definition fs_readFile :: "path \<Rightarrow> (errno option \<Rightarrow> jsval \<Rightarrow> jsval js) \<Rightarrow> jsval js" where
  "fs_readFile p = callback_form (fs_readFileSync p)"

definition fs_writeFile :: "path \<Rightarrow> string \<Rightarrow> (errno option \<Rightarrow> jsval \<Rightarrow> jsval js) \<Rightarrow> jsval js" where
  "fs_writeFile p data = callback_form (fs_writeFileSync p data)"

definition fs_appendFile :: "path \<Rightarrow> string \<Rightarrow> (errno option \<Rightarrow> jsval \<Rightarrow> jsval js) \<Rightarrow> jsval js" where
  "fs_appendFile p data = callback_form (fs_appendFileSync p data)"

definition fs_readdir :: "path \<Rightarrow> (errno option \<Rightarrow> jsval \<Rightarrow> jsval js) \<Rightarrow> jsval js" where
  "fs_readdir p = callback_form (fs_readdirSync p)"

definition fs_rmdirRecursive :: "path \<Rightarrow> (errno option \<Rightarrow> jsval \<Rightarrow> jsval js) \<Rightarrow> jsval js" where
  "fs_rmdirRecursive p = callback_form (fs_rmdirRecursiveSync p)"

definition fs_unlink :: "path \<Rightarrow> (errno option \<Rightarrow> jsval \<Rightarrow> jsval js) \<Rightarrow> jsval js" where
  "fs_unlink p = callback_form (fs_unlinkSync p)"


section \<open>The module \<^verbatim>\<open>practice/basic/fs\<close>\<close>

definition readFilePath :: path where
  "readFilePath = ''./practice/basic/fs/file/test.txt''"

definition writeFilePath :: path where
  "writeFilePath = ''./practice/basic/fs/file/write.txt''"

definition filePathForAppendFile :: path where
  "filePathForAppendFile = ''./practice/basic/fs/file/write.txt''"

definition folderPath :: path where
  "folderPath = ''./practice/basic/fs/file''"

definition deleteFilePath :: path where
  "deleteFilePath = ''./practice/basic/fs/file/write.txt''"

definition filePathForWatch :: path where
  "filePathForWatch = ''./practice/basic/fs/file/write.txt''"

text \<open>\<^verbatim>\<open>p.split("/").at(-1)\<close>: what follows the last slash, the whole string if there is none.\<close>

definition lastSegment :: "string \<Rightarrow> string" where
  "lastSegment p = rev (takeWhile (\<lambda>c. c \<noteq> CHR ''/'') (rev p))"

definition fileReader :: "jsval js" where
  "fileReader =
     fs_readFile readFilePath
       (\<lambda>err data.
          case err of
            Some e \<Rightarrow> consoleLog [LVal (JStr ''error reading file:''), LErr e]
          | None \<Rightarrow> consoleLog [LVal (JStr ''file content:''), LVal data])"

definition fileReadAsync :: "jsval js" where
  "fileReadAsync =
     tryCatch
       (andThen (fs_readFileSync readFilePath) (\<lambda>fileContent.
        andThen (consoleLog [LVal (JStr ''file content: ''), LVal fileContent]) (\<lambda>u.
        ret Undefined)))
       (\<lambda>er. consoleLog [LVal (JStr ''error on read file: ''), LErr er])"

definition writeFile :: "jsval js" where
  "writeFile =
     fs_writeFile writeFilePath ''add new line again''
       (\<lambda>err v.
          case err of
            Some e \<Rightarrow> consoleLog [LVal (JStr ''errorr write file:''), LErr e]
          | None \<Rightarrow> consoleLog [LVal (JStr ''file written successfully'')])"

definition fileExistCheck :: "path \<Rightarrow> jsval js" where
  "fileExistCheck filePath =
     tryCatch
       (andThen (fs_accessSync filePath) (\<lambda>u. ret (JBool True)))
       (\<lambda>ex. ret (JBool False))"

definition writeFileAsync :: "jsval js" where
  "writeFileAsync =
     tryCatch
       (andThen (fs_writeFileSync writeFilePath ''this are synchronous file with add line'') (\<lambda>file.
        andThen (consoleLog [LVal (JStr ''synchronous file writen done'')]) (\<lambda>u.
        ret file)))
       (\<lambda>error. consoleLog [LErr error])"

definition appendToFile :: "jsval js" where
  "appendToFile =
     fs_appendFile writeFilePath (CHR 0x0A # ''Append a new text asynchronously'')
       (\<lambda>err v.
          case err of
            Some e \<Rightarrow> consoleLog [LVal (JStr ''error appending text on file: ''), LErr e]
          | None \<Rightarrow> consoleLog [LVal (JStr ''text append ok'')])"

text \<open>The argument \<open>text\<close> is the string spliced into the template \<^verbatim>\<open>`\n${text}`\<close>.\<close>

definition appendFileSync :: "string \<Rightarrow> jsval js" where
  "appendFileSync text =
     andThen (fileExistCheck filePathForAppendFile) (\<lambda>filePathExist.
     tryCatch
       (if truthy filePathExist then
          andThen (fs_appendFileSync filePathForAppendFile (CHR 0x0A # text)) (\<lambda>file.
          andThen (consoleLog [LVal (JStr ''append ok.'')]) (\<lambda>u.
          ret file))
        else consoleLog [LVal (JStr ''file path are not exist!'')])
       (\<lambda>error. consoleLog [LVal (JStr ''error on append file: ''), LErr error]))"

definition directoryExist :: "path \<Rightarrow> jsval js" where
  "directoryExist dir =
     (let folderName = lastSegment dir in
      tryCatch
        (andThen (fs_existsSync dir) (\<lambda>found.
         if truthy found then
           andThen (consoleLog [LVal (JStr (''This '' @ [CHR 0x22] @ folderName @ [CHR 0x22]
                                             @ '' Folder exist, try another name''))]) (\<lambda>u.
           ret (JBool True))
         else
           andThen (consoleLog [LVal (JStr (''folder are not found, you can create folder name of ''
                                             @ folderName))]) (\<lambda>u.
           ret (JBool False))))
        (\<lambda>error. consoleLog [LVal (JStr ''directory not found''), LErr error]))"

definition createFolder :: "jsval js" where
  "createFolder =
     andThen (directoryExist folderPath) (\<lambda>directory.
     if truthy directory then
       consoleLog [LVal (JStr ''direcory''), LVal directory]
     else
       andThen (fs_mkdirSync folderPath) (\<lambda>u.
       consoleLog [LVal (JStr ''folder created'')]))"

definition readDirectory :: "jsval js" where
  "readDirectory =
     andThen (directoryExist folderPath) (\<lambda>isFolderPath.
     if truthy isFolderPath then
       fs_readdir folderPath
         (\<lambda>err files.
            case err of
              Some e \<Rightarrow> consoleLog [LVal (JStr ''you got an error reading files''), LErr e]
            | None \<Rightarrow> consoleLog [LVal (JStr ''your files ready: ''), LVal files])
     else consoleLog [LVal (JStr ''folder path are not found.'')])"

definition removeDirectory :: "jsval js" where
  "removeDirectory =
     andThen (directoryExist folderPath) (\<lambda>isDirectoryExist.
     if truthy isDirectoryExist then
       fs_rmdirRecursive folderPath
         (\<lambda>err v.
            case err of
              Some e \<Rightarrow> consoleLog [LVal (JStr ''You got an Error remove directory: ''), LErr e]
            | None \<Rightarrow> consoleLog [LVal (JStr ''Directory remove done.'')])
     else consoleLog [LVal (JStr ''Folder are not exist!'')])"

definition deleteFileAsync :: "jsval js" where
  "deleteFileAsync =
     andThen (fileExistCheck writeFilePath) (\<lambda>isfile.
     if truthy isfile then
       fs_unlink writeFilePath
         (\<lambda>err v.
            case err of
              Some e \<Rightarrow> consoleLog [LVal (JStr ''file are not remove, you got an error: ''), LErr e]
            | None \<Rightarrow> consoleLog [LVal (JStr ''file remove done.'')])
     else consoleLog [LVal (JStr ''file not found'')])"

definition deleteFileSync :: "jsval js" where
  "deleteFileSync =
     andThen (fileExistCheck deleteFilePath) (\<lambda>isFile.
     if truthy isFile then
       andThen (fs_unlinkSync deleteFilePath) (\<lambda>removeFile.
       andThen (consoleLog [LVal (JStr ''file remove done.'')]) (\<lambda>u.
       ret removeFile))
     else
       consoleLog [LVal (JStr (''This '' @ lastSegment deleteFilePath @ '' are not found''))])"




subsection \<open>The script \<^verbatim>\<open>practice/basic/index.js\<close>\<close>

definition practice_file :: path where
  "practice_file = ''../basic/fs/file/write.txt''"

text \<open>Its own \<^verbatim>\<open>appendFileSync\<close>, which appends without looking first.\<close>

definition practice_appendFileSync :: "string \<Rightarrow> jsval js" where
  "practice_appendFileSync text =
     tryCatch
       (andThen (fs_appendFileSync practice_file (CHR 0x0A # text)) (\<lambda>file.
        andThen (consoleLog [LVal (JStr ''append ok.'')]) (\<lambda>u.
        ret file)))
       (\<lambda>error. consoleLog [LVal (JStr ''error on append file: ''), LErr error])"

subsection \<open>The entry script\<close>



section \<open>Worlds used as examples\<close>

text \<open>
  \<open>empty_world\<close> has no entry at all; \<open>fresh_world\<close> has the directory in which the
  module's folder is created; \<open>folder_world\<close> has the folder, still empty;
  \<open>sample_world\<close> has both files in it. In \<open>hidden_world\<close> the operating system
  refuses every access check, in \<open>locked_world\<close> every removal of a file, in
  \<open>unlistable_world\<close> every listing of a directory. In \<open>dir_world\<close> the path of \<^verbatim>\<open>write.txt\<close> is
  a directory.
\<close>

definition empty_world :: world where
  "empty_world = \<lparr>entries = [], fault = (\<lambda>s p. None), console = [], watching = []\<rparr>"

definition fresh_world :: world where
  "fresh_world =
     \<lparr>entries = [(''./practice/basic/fs'', Dir)],
      fault = (\<lambda>s p. None), console = [], watching = []\<rparr>"

definition folder_world :: world where
  "folder_world =
     \<lparr>entries = [(''./practice/basic/fs'', Dir), (''./practice/basic/fs/file'', Dir)],
      fault = (\<lambda>s p. None), console = [], watching = []\<rparr>"

definition sample_world :: world where
  "sample_world =
     \<lparr>entries = [(''./practice/basic/fs'', Dir),
                 (''./practice/basic/fs/file'', Dir),
                 (''./practice/basic/fs/file/test.txt'', File ''hello''),
                 (''./practice/basic/fs/file/write.txt'', File ''a'')],
      fault = (\<lambda>s p. None), console = [], watching = []\<rparr>"

definition hidden_world :: world where
  "hidden_world = sample_world\<lparr>fault := (\<lambda>s p. if s = Access then Some Denied else None)\<rparr>"

definition locked_world :: world where
  "locked_world = sample_world\<lparr>fault := (\<lambda>s p. if s = Unlink then Some Denied else None)\<rparr>"

definition unlistable_world :: world where
  "unlistable_world = sample_world\<lparr>fault := (\<lambda>s p. if s = Readdir then Some Denied else None)\<rparr>"

definition dir_world :: world where
  "dir_world =
     \<lparr>entries = [(''./practice/basic/fs'', Dir),
                 (''./practice/basic/fs/file'', Dir),
                 (''./practice/basic/fs/file/write.txt'', Dir)],
      fault = (\<lambda>s p. None), console = [], watching = []\<rparr>"

section \<open>Basic facts\<close>

lemmas paths = readFilePath_def writeFilePath_def filePathForAppendFile_def folderPath_def
  deleteFilePath_def filePathForWatch_def practice_file_def

lemmas worlds = empty_world_def fresh_world_def folder_world_def sample_world_def
  hidden_world_def locked_world_def unlistable_world_def dir_world_def

lemmas control = andThen_def tryCatch_def ret_def consoleLog_def callback_form_def

lemma entry_at_console [simp]: "entry_at (w\<lparr>console := c\<rparr>) p = entry_at w p"
  by (simp add: entry_at_def)

lemma entry_at_update [simp]:
  "entry_at (w\<lparr>entries := AList.update p n (entries w)\<rparr>) q =
     (if q = p then Some n else entry_at w q)"
  by (simp add: entry_at_def update_conv')

lemma entry_at_delete [simp]:
  "entry_at (w\<lparr>entries := AList.delete p (entries w)\<rparr>) q =
     (if q = p then None else entry_at w q)"
  by (simp add: entry_at_def delete_conv')

lemma entry_at_removed [simp]:
  "entry_at (w\<lparr>entries := filter (\<lambda>x. fst x \<noteq> p \<and> \<not> inside p (fst x)) (entries w)\<rparr>) q =
     (if q = p \<or> inside p q then None else entry_at w q)"
proof -
  have "map_of (filter (\<lambda>x. P (fst x)) xs) q = (if P q then map_of xs q else None)"
    for P and xs :: "(path \<times> node) list"
    by (induction xs) auto
  from this [of "\<lambda>k. k \<noteq> p \<and> \<not> inside p k" "entries w"] show ?thesis
    by (simp add: entry_at_def)
qed

lemma entry_at_entries_update:
  "entry_at (w\<lparr>entries := AList.update p n (entries w), console := c\<rparr>) q =
     (if q = p then Some n else entry_at w q)"
  by (simp add: entry_at_def update_conv')

lemma parent_check_console [simp]: "parent_check (w\<lparr>console := c\<rparr>) p = parent_check w p"
  by (simp add: parent_check_def)

lemma has_below_console [simp]: "has_below (w\<lparr>console := c\<rparr>) d = has_below w d"
  by (simp add: has_below_def)

lemma rm_fault_console [simp]: "rm_fault (w\<lparr>console := c\<rparr>) q n = rm_fault w q n"
  by (cases n) (simp_all cong: option.case_cong)

lemma rm_refused_console [simp]: "rm_refused (w\<lparr>console := c\<rparr>) p = rm_refused w p"
  by (simp add: rm_refused_def cong: option.case_cong)

lemma fs_readFileSync_console [simp]:
  "fst (fs_readFileSync p (w\<lparr>console := c\<rparr>)) = fst (fs_readFileSync p w)"
  by (simp add: fs_readFileSync_def split: option.splits node.splits)

text \<open>
  The existence check of the module: \<^verbatim>\<open>true\<close> when the entry is there and the access
  check is not refused, \<^verbatim>\<open>false\<close> in every other case, and the world is untouched.
\<close>

lemma fileExistCheck_eval:
  "fileExistCheck p w = (Inr (JBool (entry_at w p \<noteq> None \<and> fault w Access p = None)), w)"
  by (simp add: fileExistCheck_def control fs_accessSync_def split: option.splits)

lemma fs_existsSync_eval:
  "fs_existsSync p w = (Inr (JBool (entry_at w p \<noteq> None \<and> fault w Access p = None)), w)"
  by (simp add: fs_existsSync_def fs_accessSync_def split: option.splits)

lemma directoryExist_eval:
  "directoryExist p w =
     (Inr (JBool (entry_at w p \<noteq> None \<and> fault w Access p = None)),
      w\<lparr>console := console w @
         [[LVal (JStr (if entry_at w p \<noteq> None \<and> fault w Access p = None
                       then ''This '' @ [CHR 0x22] @ lastSegment p @ [CHR 0x22]
                            @ '' Folder exist, try another name''
                       else ''folder are not found, you can create folder name of ''
                            @ lastSegment p))]]\<rparr>)"
  by (simp add: directoryExist_def control fs_existsSync_eval Let_def)

text \<open>What a write or an append leaves behind.\<close>

lemma store_returns: "store put p w = (Inr v, w1) \<Longrightarrow> v = Undefined"
  by (auto simp: store_def split: option.splits node.splits)

lemma store_console: "console (snd (store put p w)) = console w"
  by (simp add: store_def split: option.splits node.splits)

lemma fileReadAsync_eval:
  "fileReadAsync w =
     (Inr Undefined,
      w\<lparr>console := console w @
         [case fst (fs_readFileSync readFilePath w) of
            Inl er \<Rightarrow> [LVal (JStr ''error on read file: ''), LErr er]
          | Inr fileContent \<Rightarrow> [LVal (JStr ''file content: ''), LVal fileContent]]\<rparr>)"
  by (simp add: fileReadAsync_def control fs_readFileSync_def split: option.splits node.splits)

lemma writeFileAsync_eval:
  "writeFileAsync w =
     (case fs_writeFileSync writeFilePath ''this are synchronous file with add line'' w of
        (Inl error, w1) \<Rightarrow> (Inr Undefined, w1\<lparr>console := console w1 @ [[LErr error]]\<rparr>)
      | (Inr file, w1) \<Rightarrow>
          (Inr file, w1\<lparr>console := console w1 @ [[LVal (JStr ''synchronous file writen done'')]]\<rparr>))"
  by (simp add: writeFileAsync_def control split: prod.splits sum.splits)

section \<open>Appending to a file that is not there\<close>

text \<open>
  C1. The specification wants an append to an absent file to fail with NotFound and
  never to create the file. In the module, \<open>appendFileSync\<close> looks first and, when the
  file is absent, does not create it: the file system is left as it was. It does not
  signal anything either: it writes \<^verbatim>\<open>file path are not exist!\<close> to the console and
  returns \<^verbatim>\<open>undefined\<close>.
\<close>

theorem appendFileSync_absent:
  "entry_at w filePathForAppendFile = None \<Longrightarrow>
   appendFileSync text w =
     (Inr Undefined, w\<lparr>console := console w @ [[LVal (JStr ''file path are not exist!'')]]\<rparr>)"
  by (simp add: appendFileSync_def control fileExistCheck_eval)

theorem appendFileSync_absent_witness:
  "entry_at empty_world filePathForAppendFile = None \<and>
   appendFileSync ''x'' empty_world =
     (Inr Undefined, empty_world\<lparr>console := [[LVal (JStr ''file path are not exist!'')]]\<rparr>)"
  using appendFileSync_absent [of empty_world "''x''"]
  by (simp add: entry_at_def empty_world_def)

text \<open>
  The claim as written fails twice: \<open>appendFileSync\<close> returns \<^verbatim>\<open>undefined\<close> where
  NotFound is expected, and \<open>appendToFile\<close>, which does not look first, creates the
  file.
\<close>

theorem append_absent_counterexample:
  "entry_at empty_world filePathForAppendFile = None \<and>
   fst (appendFileSync ''x'' empty_world) = Inr Undefined \<and>
   entry_at folder_world writeFilePath = None \<and>
   entry_at (snd (appendToFile folder_world)) writeFilePath
     = Some (File (CHR 0x0A # ''Append a new text asynchronously''))"
  by (simp add: appendFileSync_def appendToFile_def fs_appendFile_def fs_appendFileSync_def
      store_def parent_check_def dirname_def control fileExistCheck_eval entry_at_def worlds paths)

section \<open>Failures that stay inside the wrapper\<close>

text \<open>
  C2. The specification wants every operation to hand its failure to the caller. The
  reading and the writing wrapper catch the exception of the \<^verbatim>\<open>fs\<close> call instead:
  \<open>fileReadAsync\<close> and \<open>writeFileAsync\<close> return \<^verbatim>\<open>undefined\<close> whether the call failed
  or not, and the only trace of the failure is the line written to the console.
\<close>

theorem failures_only_logged:
  "fileReadAsync w =
     (Inr Undefined,
      w\<lparr>console := console w @
         [case fst (fs_readFileSync readFilePath w) of
            Inl er \<Rightarrow> [LVal (JStr ''error on read file: ''), LErr er]
          | Inr fileContent \<Rightarrow> [LVal (JStr ''file content: ''), LVal fileContent]]\<rparr>)
   \<and> fst (writeFileAsync w) = Inr Undefined
   \<and> console (snd (writeFileAsync w)) = console w @
         [case fst (fs_writeFileSync writeFilePath ''this are synchronous file with add line'' w) of
            Inl error \<Rightarrow> [LErr error]
          | Inr file \<Rightarrow> [LVal (JStr ''synchronous file writen done'')]]"
proof (intro conjI)
  show "fileReadAsync w =
     (Inr Undefined,
      w\<lparr>console := console w @
         [case fst (fs_readFileSync readFilePath w) of
            Inl er \<Rightarrow> [LVal (JStr ''error on read file: ''), LErr er]
          | Inr fileContent \<Rightarrow> [LVal (JStr ''file content: ''), LVal fileContent]]\<rparr>)"
    by (rule fileReadAsync_eval)
next
  show "fst (writeFileAsync w) = Inr Undefined"
    by (auto simp: writeFileAsync_eval fs_writeFileSync_def split: prod.splits sum.splits
        dest: store_returns)
next
  show "console (snd (writeFileAsync w)) = console w @
         [case fst (fs_writeFileSync writeFilePath ''this are synchronous file with add line'' w) of
            Inl error \<Rightarrow> [LErr error]
          | Inr file \<Rightarrow> [LVal (JStr ''synchronous file writen done'')]]"
    using store_console [of "\<lambda>old. ''this are synchronous file with add line''" writeFilePath w]
    by (auto simp: writeFileAsync_eval fs_writeFileSync_def split: prod.splits sum.splits)
qed

text \<open>
  A read that fails and a read that succeeds give the caller the same value.
\<close>

theorem swallowed_failure_counterexample:
  "fst (fs_readFileSync readFilePath empty_world) = Inl ENOENT \<and>
   fst (fileReadAsync empty_world) = Inr Undefined \<and>
   fst (fs_readFileSync readFilePath sample_world) = Inr (JStr ''hello'') \<and>
   fst (fileReadAsync sample_world) = Inr Undefined"
  by (simp add: fileReadAsync_eval fs_readFileSync_def entry_at_def worlds paths)

section \<open>Appending twice\<close>

lemma appendFileSync_present:
  assumes "entry_at w filePathForAppendFile = Some (File c)"
    and "fault w Access filePathForAppendFile = None"
    and "fault w Write filePathForAppendFile = None"
  shows "appendFileSync text w =
     (Inr Undefined,
      w\<lparr>entries := AList.update filePathForAppendFile (File (c @ CHR 0x0A # text)) (entries w),
        console := console w @ [[LVal (JStr ''append ok.'')]]\<rparr>)"
  using assms
  by (simp add: appendFileSync_def control fileExistCheck_eval fs_appendFileSync_def store_def)

lemma appendFileSync_twice:
  assumes "entry_at w filePathForAppendFile = Some (File original)"
    and "fault w Access filePathForAppendFile = None"
    and "fault w Write filePathForAppendFile = None"
    and "fault w Read filePathForAppendFile = None"
  shows "fst (fs_readFileSync filePathForAppendFile
                (snd (appendFileSync t (snd (appendFileSync s w)))))
         = Inr (JStr (original @ CHR 0x0A # s @ CHR 0x0A # t))"
proof -
  let ?w1 = "snd (appendFileSync s w)"
  have w1: "?w1 = w\<lparr>entries := AList.update filePathForAppendFile (File (original @ CHR 0x0A # s)) (entries w),
        console := console w @ [[LVal (JStr ''append ok.'')]]\<rparr>"
    using assms by (simp add: appendFileSync_present)
  have e1: "entry_at ?w1 filePathForAppendFile = Some (File (original @ CHR 0x0A # s))"
    by (simp add: w1 entry_at_entries_update)
  have f1: "fault ?w1 = fault w"
    by (simp add: w1)
  let ?w2 = "snd (appendFileSync t ?w1)"
  have w2: "?w2 = ?w1\<lparr>entries := AList.update filePathForAppendFile
                 (File ((original @ CHR 0x0A # s) @ CHR 0x0A # t)) (entries ?w1),
        console := console ?w1 @ [[LVal (JStr ''append ok.'')]]\<rparr>"
    using appendFileSync_present [OF e1, of t] assms by (simp add: f1)
  have e2: "entry_at ?w2 filePathForAppendFile = Some (File ((original @ CHR 0x0A # s) @ CHR 0x0A # t))"
    by (subst w2) (simp add: entry_at_entries_update)
  have f2: "fault ?w2 = fault w"
    by (subst w2) (simp add: f1)
  show ?thesis
    using e2 assms(4) by (simp add: fs_readFileSync_def f2)
qed

text \<open>
  C3. The specification wants two appends to an existing file to leave exactly the
  original content followed by the two texts, with nothing in between. \<open>appendFileSync\<close>
  writes \<^verbatim>\<open>`\n${text}`\<close>: when the file is there and may be checked, written and
  read, reading it after the two appends gives the original content, a line feed, the
  first text, a line feed and the second text, in this order.
\<close>

theorem append_twice:
  assumes "entry_at w filePathForAppendFile = Some (File original)"
    and "fault w Access filePathForAppendFile = None"
    and "fault w Write filePathForAppendFile = None"
    and "fault w Read filePathForAppendFile = None"
  shows "fst (fs_readFileSync filePathForAppendFile
                (snd (appendFileSync t (snd (appendFileSync s w)))))
         = Inr (JStr (original @ CHR 0x0A # s @ CHR 0x0A # t))"
  using assms by (rule appendFileSync_twice)

theorem append_twice_witness:
  "entry_at sample_world filePathForAppendFile = Some (File ''a'') \<and>
   fst (fs_readFileSync filePathForAppendFile
          (snd (appendFileSync ''c'' (snd (appendFileSync ''b'' sample_world)))))
     = Inr (JStr [CHR ''a'', CHR 0x0A, CHR ''b'', CHR 0x0A, CHR ''c''])"
  using append_twice [where w = sample_world and original = "''a''" and s = "''b''" and t = "''c''"]
  by (simp add: entry_at_def worlds paths)

text \<open>With the content \<^verbatim>\<open>a\<close> and the texts \<^verbatim>\<open>b\<close> and \<^verbatim>\<open>c\<close> the file does not read \<^verbatim>\<open>abc\<close>.\<close>

theorem append_twice_counterexample:
  "entry_at sample_world filePathForAppendFile = Some (File ''a'') \<and>
   fst (fs_readFileSync filePathForAppendFile
          (snd (appendFileSync ''c'' (snd (appendFileSync ''b'' sample_world)))))
     \<noteq> Inr (JStr (''a'' @ ''b'' @ ''c''))"
  using appendFileSync_twice [where w = sample_world and original = "''a''" and s = "''b''" and t = "''c''"]
  by (simp add: entry_at_def worlds paths)

section \<open>The existence check\<close>

text \<open>
  C4. The specification wants the existence check to answer \<^verbatim>\<open>true\<close> exactly when an
  accessible entry is there, never to throw for an absent path, and to report a refused
  or failed access as a failure of its own. \<open>fileExistCheck\<close> and \<open>directoryExist\<close> do
  the first two; the third they do not: they never throw at all, and every failure of
  the access check, a refusal included, is the answer \<^verbatim>\<open>false\<close>.
\<close>

theorem existence_check:
  "fileExistCheck p w = (Inr (JBool (entry_at w p \<noteq> None \<and> fault w Access p = None)), w) \<and>
   fst (fileExistCheck p w)
     = Inr (JBool (case fst (fs_accessSync p w) of Inl ex \<Rightarrow> False | Inr u \<Rightarrow> True)) \<and>
   fst (directoryExist p w) = Inr (JBool (entry_at w p \<noteq> None \<and> fault w Access p = None))"
  by (simp add: fileExistCheck_eval directoryExist_eval fs_accessSync_def split: option.splits)

text \<open>
  In \<open>hidden_world\<close> the file is there and the access check fails with \<open>EACCES\<close>; both
  checks answer \<^verbatim>\<open>false\<close>, as they do where there is no file.
\<close>

theorem existence_check_counterexample:
  "entry_at hidden_world writeFilePath = Some (File ''a'') \<and>
   fst (fs_accessSync writeFilePath hidden_world) = Inl EACCES \<and>
   fst (fileExistCheck writeFilePath hidden_world) = Inr (JBool False) \<and>
   fst (directoryExist writeFilePath hidden_world) = Inr (JBool False) \<and>
   fst (fileExistCheck writeFilePath empty_world) = Inr (JBool False)"
  by (simp add: fileExistCheck_eval directoryExist_eval fs_accessSync_def entry_at_def worlds paths)

section \<open>Creating the folder\<close>

lemma createFolder_present:
  assumes "entry_at w folderPath = Some n" and "fault w Access folderPath = None"
  shows "createFolder w =
     (Inr Undefined,
      w\<lparr>console := console w @
         [[LVal (JStr (''This '' @ [CHR 0x22] @ lastSegment folderPath @ [CHR 0x22]
                        @ '' Folder exist, try another name''))],
          [LVal (JStr ''direcory''), LVal (JBool True)]]\<rparr>)"
  using assms by (simp add: createFolder_def control directoryExist_eval)

lemma createFolder_absent:
  assumes "entry_at w folderPath = None"
    and "parent_check w folderPath = None" and "fault w Mkdir folderPath = None"
  shows "createFolder w =
     (Inr Undefined,
      w\<lparr>entries := AList.update folderPath Dir (entries w),
        console := console w @
         [[LVal (JStr (''folder are not found, you can create folder name of ''
                        @ lastSegment folderPath))],
          [LVal (JStr ''folder created'')]]\<rparr>)"
  using assms by (simp add: createFolder_def control directoryExist_eval fs_mkdirSync_def)

text \<open>
  C5. The specification wants the creation of a directory to fail with AlreadyExists
  when the path is taken, leaving the entry untouched, so that a second creation fails.
  \<open>createFolder\<close> leaves the entry untouched, and it does not fail: when \<open>directoryExist\<close>
  finds the path it writes two lines to the console and returns \<^verbatim>\<open>undefined\<close>. On a
  free path whose parent is there and where nothing is refused, the first call creates
  the directory and the second call returns \<^verbatim>\<open>undefined\<close> and changes no entry.
\<close>

theorem createFolder_refuses_quietly:
  "(entry_at w folderPath = Some n \<and> fault w Access folderPath = None \<longrightarrow>
      fst (createFolder w) = Inr Undefined \<and> entries (snd (createFolder w)) = entries w) \<and>
   (entry_at w folderPath = None \<and> parent_check w folderPath = None \<and>
    fault w Mkdir folderPath = None \<and> fault w Access folderPath = None \<longrightarrow>
      fst (createFolder w) = Inr Undefined \<and>
      entry_at (snd (createFolder w)) folderPath = Some Dir \<and>
      fst (createFolder (snd (createFolder w))) = Inr Undefined \<and>
      entries (snd (createFolder (snd (createFolder w)))) = entries (snd (createFolder w)))"
proof (intro conjI impI)
  assume a: "entry_at w folderPath = Some n \<and> fault w Access folderPath = None"
  then show "fst (createFolder w) = Inr Undefined" "entries (snd (createFolder w)) = entries w"
    by (simp_all add: createFolder_present)
next
  assume a: "entry_at w folderPath = None \<and> parent_check w folderPath = None \<and>
    fault w Mkdir folderPath = None \<and> fault w Access folderPath = None"
  let ?w1 = "snd (createFolder w)"
  have w1: "?w1 = w\<lparr>entries := AList.update folderPath Dir (entries w),
        console := console w @
         [[LVal (JStr (''folder are not found, you can create folder name of ''
                        @ lastSegment folderPath))],
          [LVal (JStr ''folder created'')]]\<rparr>"
    using a by (simp add: createFolder_absent)
  show "fst (createFolder w) = Inr Undefined"
    using a by (simp add: createFolder_absent)
  show e1: "entry_at ?w1 folderPath = Some Dir"
    by (simp add: w1 entry_at_def update_conv')
  have f1: "fault ?w1 Access folderPath = None"
    using a by (simp add: w1)
  show "fst (createFolder ?w1) = Inr Undefined"
    by (simp add: createFolder_present [OF e1 f1])
  show "entries (snd (createFolder ?w1)) = entries ?w1"
    by (simp add: createFolder_present [OF e1 f1])
qed

theorem createFolder_refuses_quietly_witness:
  "entry_at folder_world folderPath = Some Dir \<and>
   fst (createFolder folder_world) = Inr Undefined \<and>
   entries (snd (createFolder folder_world)) = entries folder_world \<and>
   entry_at fresh_world folderPath = None \<and>
   parent_check fresh_world folderPath = None \<and>
   entry_at (snd (createFolder fresh_world)) folderPath = Some Dir \<and>
   fst (createFolder (snd (createFolder fresh_world))) = Inr Undefined \<and>
   entries (snd (createFolder (snd (createFolder fresh_world))))
     = entries (snd (createFolder fresh_world))"
proof -
  have a: "entry_at folder_world folderPath = Some Dir \<and> fault folder_world Access folderPath = None"
    by (simp add: entry_at_def worlds paths)
  have b: "entry_at fresh_world folderPath = None \<and> parent_check fresh_world folderPath = None \<and>
    fault fresh_world Mkdir folderPath = None \<and> fault fresh_world Access folderPath = None"
    by (simp add: entry_at_def parent_check_def dirname_def worlds paths)
  show ?thesis
    using a b createFolder_refuses_quietly [of folder_world Dir]
      createFolder_refuses_quietly [of fresh_world Dir]
    by simp
qed

text \<open>Neither the call on the existing folder nor the second of two calls throws.\<close>

theorem createFolder_twice_counterexample:
  "entry_at folder_world folderPath = Some Dir \<and>
   fst (createFolder folder_world) = Inr Undefined \<and>
   entry_at fresh_world folderPath = None \<and>
   fst (createFolder fresh_world) = Inr Undefined \<and>
   fst (createFolder (snd (createFolder fresh_world))) = Inr Undefined"
proof -
  have a: "entry_at folder_world folderPath = Some Dir" "fault folder_world Access folderPath = None"
    by (simp_all add: entry_at_def worlds paths)
  have b: "entry_at fresh_world folderPath = None" "parent_check fresh_world folderPath = None"
    "fault fresh_world Mkdir folderPath = None"
    by (simp_all add: entry_at_def parent_check_def dirname_def worlds paths)
  have c: "entry_at (snd (createFolder fresh_world)) folderPath = Some Dir"
    "fault (snd (createFolder fresh_world)) Access folderPath = None"
    by (simp_all add: createFolder_absent [OF b] entry_at_def update_conv') (simp add: worlds)
  have "fst (createFolder folder_world) = Inr Undefined"
    by (simp add: createFolder_present [OF a])
  moreover have "fst (createFolder fresh_world) = Inr Undefined"
    by (simp add: createFolder_absent [OF b])
  moreover have "fst (createFolder (snd (createFolder fresh_world))) = Inr Undefined"
    by (simp only: createFolder_present [OF c] fst_conv)
  ultimately show ?thesis
    using a(1) b(1) by simp
qed

section \<open>Deleting a file that is not there\<close>

lemma deleteFileSync_absent:
  "entry_at w deleteFilePath = None \<Longrightarrow>
   deleteFileSync w =
     (Inr Undefined,
      w\<lparr>console := console w @
         [[LVal (JStr (''This '' @ lastSegment deleteFilePath @ '' are not found''))]]\<rparr>)"
  by (simp add: deleteFileSync_def control fileExistCheck_eval)

lemma deleteFileAsync_absent:
  "entry_at w writeFilePath = None \<Longrightarrow>
   deleteFileAsync w =
     (Inr Undefined, w\<lparr>console := console w @ [[LVal (JStr ''file not found'')]]\<rparr>)"
  by (simp add: deleteFileAsync_def control fileExistCheck_eval)

text \<open>
  C6. The specification wants the removal of an absent file to fail with NotFound, the
  second time as the first. \<open>deleteFileSync\<close> and \<open>deleteFileAsync\<close> do not fail on an
  absent file: each writes its message to the console, changes nothing else and returns
  \<^verbatim>\<open>undefined\<close>; a second call does the same again.
\<close>

theorem delete_absent_twice:
  assumes "entry_at w deleteFilePath = None"
  shows "deleteFileSync w =
           (Inr Undefined,
            w\<lparr>console := console w @
               [[LVal (JStr (''This '' @ lastSegment deleteFilePath @ '' are not found''))]]\<rparr>)
       \<and> deleteFileSync (snd (deleteFileSync w)) =
           (Inr Undefined,
            w\<lparr>console := console w @
               [[LVal (JStr (''This '' @ lastSegment deleteFilePath @ '' are not found''))],
                [LVal (JStr (''This '' @ lastSegment deleteFilePath @ '' are not found''))]]\<rparr>)
       \<and> deleteFileAsync w =
           (Inr Undefined, w\<lparr>console := console w @ [[LVal (JStr ''file not found'')]]\<rparr>)
       \<and> deleteFileAsync (snd (deleteFileAsync w)) =
           (Inr Undefined,
            w\<lparr>console := console w @
               [[LVal (JStr ''file not found'')], [LVal (JStr ''file not found'')]]\<rparr>)"
proof -
  have other: "entry_at w writeFilePath = None"
    using assms by (simp add: paths)
  show ?thesis
    using assms other by (simp add: deleteFileSync_absent deleteFileAsync_absent)
qed

theorem delete_absent_twice_witness:
  "entry_at empty_world deleteFilePath = None \<and>
   deleteFileSync (snd (deleteFileSync empty_world)) =
     (Inr Undefined,
      empty_world\<lparr>console :=
         [[LVal (JStr ''This write.txt are not found'')],
          [LVal (JStr ''This write.txt are not found'')]]\<rparr>)"
proof -
  have absent: "entry_at empty_world deleteFilePath = None"
    by (simp add: entry_at_def empty_world_def)
  have name: "lastSegment deleteFilePath = ''write.txt''"
    by (simp add: lastSegment_def paths)
  from delete_absent_twice [OF absent] have
    "deleteFileSync (snd (deleteFileSync empty_world)) =
     (Inr Undefined,
      empty_world\<lparr>console := console empty_world @
         [[LVal (JStr (''This '' @ lastSegment deleteFilePath @ '' are not found''))],
          [LVal (JStr (''This '' @ lastSegment deleteFilePath @ '' are not found''))]]\<rparr>)"
    by blast
  then show ?thesis
    using absent by (simp add: name empty_world_def)
qed

text \<open>Where the specification expects NotFound, both functions return \<^verbatim>\<open>undefined\<close>.\<close>

theorem delete_absent_counterexample:
  "entry_at empty_world deleteFilePath = None \<and>
   fst (deleteFileSync empty_world) = Inr Undefined \<and>
   fst (deleteFileAsync empty_world) = Inr Undefined"
  by (simp add: deleteFileSync_absent deleteFileAsync_absent entry_at_def empty_world_def)

section \<open>Removing the folder with what is in it\<close>

lemma removeDirectory_absent:
  "entry_at w folderPath = None \<Longrightarrow>
   removeDirectory w =
     (Inr Undefined,
      w\<lparr>console := console w @
         [[LVal (JStr (''folder are not found, you can create folder name of ''
                        @ lastSegment folderPath))],
          [LVal (JStr ''Folder are not exist!'')]]\<rparr>)"
  by (simp add: removeDirectory_def control directoryExist_eval)

lemma removeDirectory_present:
  assumes "entry_at w folderPath = Some Dir" and "fault w Access folderPath = None"
    and "rm_refused w folderPath = None"
  shows "removeDirectory w =
     (Inr Undefined,
      w\<lparr>entries := filter (\<lambda>x. fst x \<noteq> folderPath \<and> \<not> inside folderPath (fst x)) (entries w),
        console := console w @
         [[LVal (JStr (''This '' @ [CHR 0x22] @ lastSegment folderPath @ [CHR 0x22]
                        @ '' Folder exist, try another name''))],
          [LVal (JStr ''Directory remove done.'')]]\<rparr>)"
  using assms
  by (simp add: removeDirectory_def control directoryExist_eval fs_rmdirRecursive_def
      fs_rmdirRecursiveSync_def)

text \<open>
  Where the folder cannot be listed the removal fails and the tree stays.
\<close>

lemma removeDirectory_unlistable:
  "rm_refused unlistable_world folderPath = Some Denied \<and>
   fst (removeDirectory unlistable_world) = Inr Undefined \<and>
   entries (snd (removeDirectory unlistable_world)) = entries unlistable_world \<and>
   last (console (snd (removeDirectory unlistable_world)))
     = [LVal (JStr ''You got an Error remove directory: ''), LErr EACCES]"
  by (simp add: removeDirectory_def control directoryExist_eval fs_rmdirRecursive_def
      fs_rmdirRecursiveSync_def rm_refused_def has_below_def inside_def entry_at_def worlds paths)

text \<open>
  C7. The specification wants the recursive removal to fail with NotFound on an absent
  target, and to leave neither the directory nor anything below it. \<open>removeDirectory\<close>
  does not fail on an absent target: it writes two lines to the console and returns
  \<^verbatim>\<open>undefined\<close>. When the target is a directory that may be checked and nothing in its
  tree refuses to be listed or to go, then after the call the existence check is
  \<^verbatim>\<open>false\<close> for the directory and for every path below it.
\<close>

theorem removeDirectory_outcomes:
  "(entry_at w folderPath = None \<longrightarrow>
      removeDirectory w =
        (Inr Undefined,
         w\<lparr>console := console w @
            [[LVal (JStr (''folder are not found, you can create folder name of ''
                           @ lastSegment folderPath))],
             [LVal (JStr ''Folder are not exist!'')]]\<rparr>)) \<and>
   (entry_at w folderPath = Some Dir \<and> fault w Access folderPath = None \<and>
    rm_refused w folderPath = None \<longrightarrow>
      fst (removeDirectory w) = Inr Undefined \<and>
      fst (fileExistCheck folderPath (snd (removeDirectory w))) = Inr (JBool False) \<and>
      (\<forall>child. inside folderPath child \<longrightarrow>
         fst (fileExistCheck child (snd (removeDirectory w))) = Inr (JBool False)))"
proof (intro conjI impI allI)
  assume "entry_at w folderPath = None"
  then show "removeDirectory w =
        (Inr Undefined,
         w\<lparr>console := console w @
            [[LVal (JStr (''folder are not found, you can create folder name of ''
                           @ lastSegment folderPath))],
             [LVal (JStr ''Folder are not exist!'')]]\<rparr>)"
    by (rule removeDirectory_absent)
next
  assume a: "entry_at w folderPath = Some Dir \<and> fault w Access folderPath = None \<and>
    rm_refused w folderPath = None"
  then show "fst (removeDirectory w) = Inr Undefined"
    by (simp add: removeDirectory_present)
  have gone: "entry_at (snd (removeDirectory w)) q = None" if "q = folderPath \<or> inside folderPath q" for q
  proof -
    have "entry_at (w\<lparr>entries := filter (\<lambda>x. fst x \<noteq> folderPath \<and> \<not> inside folderPath (fst x)) (entries w)\<rparr>) q = None"
      using that by simp
    then show ?thesis
      using a by (simp add: removeDirectory_present entry_at_def)
  qed
  show "fst (fileExistCheck folderPath (snd (removeDirectory w))) = Inr (JBool False)"
    by (simp add: fileExistCheck_eval gone)
  fix child
  assume "inside folderPath child"
  then show "fst (fileExistCheck child (snd (removeDirectory w))) = Inr (JBool False)"
    by (simp add: fileExistCheck_eval gone)
qed

theorem removeDirectory_outcomes_witness:
  "entry_at empty_world folderPath = None \<and>
   fst (removeDirectory empty_world) = Inr Undefined \<and>
   entry_at sample_world folderPath = Some Dir \<and>
   entry_at sample_world writeFilePath = Some (File ''a'') \<and>
   inside folderPath writeFilePath \<and>
   fst (fileExistCheck folderPath (snd (removeDirectory sample_world))) = Inr (JBool False) \<and>
   fst (fileExistCheck writeFilePath (snd (removeDirectory sample_world))) = Inr (JBool False)"
proof -
  have a: "entry_at empty_world folderPath = None"
    by (simp add: entry_at_def worlds)
  have b: "entry_at sample_world folderPath = Some Dir \<and> fault sample_world Access folderPath = None \<and>
    rm_refused sample_world folderPath = None"
    by (simp add: entry_at_def rm_refused_def has_below_def inside_def worlds paths)
  have c: "inside folderPath writeFilePath"
    by (simp add: inside_def paths)
  have d: "entry_at sample_world writeFilePath = Some (File ''a'')"
    by (simp add: entry_at_def worlds paths)
  show ?thesis
    using a b c d removeDirectory_outcomes [of empty_world] removeDirectory_outcomes [of sample_world]
    by simp
qed

text \<open>On the empty file system the call returns \<^verbatim>\<open>undefined\<close>, not NotFound.\<close>

theorem removeDirectory_absent_counterexample:
  "entry_at empty_world folderPath = None \<and>
   fst (removeDirectory empty_world) = Inr Undefined"
  by (simp add: removeDirectory_absent entry_at_def empty_world_def)

section \<open>Writing, then reading\<close>

lemma entry_at_entries [simp]: "entry_at (w\<lparr>entries := es\<rparr>) q = map_of es q"
  by (simp add: entry_at_def)

text \<open>A write or an append to \<open>p\<close> changes the entry at \<open>p\<close> and nothing a read of another path looks at.\<close>

lemma store_elsewhere:
  "q \<noteq> p \<Longrightarrow> fs_readFileSync q (snd (store put p w)) = (fst (fs_readFileSync q w), snd (store put p w))"
  by (simp add: store_def fs_readFileSync_def update_conv' entry_at_def
      split: option.splits node.splits)

lemma store_stored:
  "store put p w = (Inr v, w1) \<Longrightarrow>
   entry_at w1 p = Some (File (put (case entry_at w p of Some (File c) \<Rightarrow> c | _ \<Rightarrow> [])))
   \<and> fault w1 = fault w"
  by (auto simp: store_def entry_at_def update_conv' split: option.splits node.splits)

lemma writeFileAsync_world:
  "snd (writeFileAsync w) =
     (let w1 = snd (fs_writeFileSync writeFilePath ''this are synchronous file with add line'' w)
      in w1\<lparr>console := console (snd (writeFileAsync w))\<rparr>)"
  by (simp add: writeFileAsync_eval Let_def split: prod.splits sum.splits)

lemma read_after_writeFileAsync:
  "fst (fs_readFileSync readFilePath (snd (writeFileAsync w))) = fst (fs_readFileSync readFilePath w)"
proof -
  have "readFilePath \<noteq> writeFilePath"
    by (simp add: paths)
  then have "fst (fs_readFileSync readFilePath
                (snd (fs_writeFileSync writeFilePath ''this are synchronous file with add line'' w)))
             = fst (fs_readFileSync readFilePath w)"
    by (simp add: fs_writeFileSync_def store_elsewhere)
  then show ?thesis
    by (subst writeFileAsync_world) (simp add: Let_def)
qed

lemma writeFileAsync_console:
  "console (snd (writeFileAsync w)) = console w @
     [case fst (fs_writeFileSync writeFilePath ''this are synchronous file with add line'' w) of
        Inl error \<Rightarrow> [LErr error]
      | Inr file \<Rightarrow> [LVal (JStr ''synchronous file writen done'')]]"
  using store_console [of "\<lambda>old. ''this are synchronous file with add line''" writeFilePath w]
  by (auto simp: writeFileAsync_eval fs_writeFileSync_def split: prod.splits sum.splits)

lemma writeFileAsync_then_fileReadAsync:
  "fst (fileReadAsync (snd (writeFileAsync w))) = Inr Undefined \<and>
   console (snd (fileReadAsync (snd (writeFileAsync w)))) = console w @
     [case fst (fs_writeFileSync writeFilePath ''this are synchronous file with add line'' w) of
        Inl error \<Rightarrow> [LErr error]
      | Inr file \<Rightarrow> [LVal (JStr ''synchronous file writen done'')],
      case fst (fs_readFileSync readFilePath w) of
        Inl er \<Rightarrow> [LVal (JStr ''error on read file: ''), LErr er]
      | Inr fileContent \<Rightarrow> [LVal (JStr ''file content: ''), LVal fileContent]]"
  by (simp add: fileReadAsync_eval read_after_writeFileAsync writeFileAsync_console)

lemma writeFileAsync_stored:
  assumes "fst (fs_writeFileSync writeFilePath ''this are synchronous file with add line'' w) = Inr v"
  shows "entry_at (snd (writeFileAsync w)) writeFilePath
           = Some (File ''this are synchronous file with add line'')"
    and "fault (snd (writeFileAsync w)) = fault w"
proof -
  let ?w1 = "snd (store (\<lambda>old. ''this are synchronous file with add line'') writeFilePath w)"
  have "store (\<lambda>old. ''this are synchronous file with add line'') writeFilePath w = (Inr v, ?w1)"
    using assms by (simp add: fs_writeFileSync_def prod_eq_iff)
  from store_stored [OF this]
  have "entry_at ?w1 writeFilePath = Some (File ''this are synchronous file with add line'')"
    and "fault ?w1 = fault w"
    by simp_all
  then show "entry_at (snd (writeFileAsync w)) writeFilePath
           = Some (File ''this are synchronous file with add line'')"
    and "fault (snd (writeFileAsync w)) = fault w"
    by (subst writeFileAsync_world, simp add: Let_def fs_writeFileSync_def)+
qed

text \<open>
  C8. The specification wants a write followed by a read to return what was written,
  for every path and content. The module's write and read are \<open>writeFileAsync\<close> and
  \<open>fileReadAsync\<close>, which take neither a path nor a content and do not meet:
  \<open>writeFileAsync\<close> writes a fixed text to \<open>writeFilePath\<close>; \<open>fileReadAsync\<close>, called
  after it, returns \<^verbatim>\<open>undefined\<close> and writes to the console what \<open>readFilePath\<close>, another
  file, held before the write. What was written is in the file: whenever the write
  succeeds, \<open>writeFilePath\<close> holds exactly the text, and \<^verbatim>\<open>fs.readFileSync\<close>, the call
  \<open>fileReadAsync\<close> is made of, returns exactly it from there when the read is permitted.
\<close>

theorem write_then_read:
  "fst (fileReadAsync (snd (writeFileAsync w))) = Inr Undefined \<and>
   console (snd (fileReadAsync (snd (writeFileAsync w)))) = console w @
     [case fst (fs_writeFileSync writeFilePath ''this are synchronous file with add line'' w) of
        Inl error \<Rightarrow> [LErr error]
      | Inr file \<Rightarrow> [LVal (JStr ''synchronous file writen done'')],
      case fst (fs_readFileSync readFilePath w) of
        Inl er \<Rightarrow> [LVal (JStr ''error on read file: ''), LErr er]
      | Inr fileContent \<Rightarrow> [LVal (JStr ''file content: ''), LVal fileContent]] \<and>
   (fst (fs_writeFileSync writeFilePath ''this are synchronous file with add line'' w) = Inr v \<longrightarrow>
      entry_at (snd (writeFileAsync w)) writeFilePath
        = Some (File ''this are synchronous file with add line'') \<and>
      (fault w Read writeFilePath = None \<longrightarrow>
         fst (fs_readFileSync writeFilePath (snd (writeFileAsync w)))
           = Inr (JStr ''this are synchronous file with add line'')))"
proof (intro conjI impI)
  show "fst (fileReadAsync (snd (writeFileAsync w))) = Inr Undefined"
    by (simp add: writeFileAsync_then_fileReadAsync)
  show "console (snd (fileReadAsync (snd (writeFileAsync w)))) = console w @
     [case fst (fs_writeFileSync writeFilePath ''this are synchronous file with add line'' w) of
        Inl error \<Rightarrow> [LErr error]
      | Inr file \<Rightarrow> [LVal (JStr ''synchronous file writen done'')],
      case fst (fs_readFileSync readFilePath w) of
        Inl er \<Rightarrow> [LVal (JStr ''error on read file: ''), LErr er]
      | Inr fileContent \<Rightarrow> [LVal (JStr ''file content: ''), LVal fileContent]]"
    by (simp add: writeFileAsync_then_fileReadAsync)
next
  assume ok: "fst (fs_writeFileSync writeFilePath ''this are synchronous file with add line'' w) = Inr v"
  show stored: "entry_at (snd (writeFileAsync w)) writeFilePath
        = Some (File ''this are synchronous file with add line'')"
    using ok by (rule writeFileAsync_stored)
  assume "fault w Read writeFilePath = None"
  then show "fst (fs_readFileSync writeFilePath (snd (writeFileAsync w)))
           = Inr (JStr ''this are synchronous file with add line'')"
    using stored writeFileAsync_stored(2) [OF ok] by (simp add: fs_readFileSync_def)
qed

theorem write_then_read_witness:
  "fst (fs_writeFileSync writeFilePath ''this are synchronous file with add line'' sample_world)
     = Inr Undefined \<and>
   fault sample_world Read writeFilePath = None \<and>
   entry_at (snd (writeFileAsync sample_world)) writeFilePath
     = Some (File ''this are synchronous file with add line'') \<and>
   fst (fs_readFileSync writeFilePath (snd (writeFileAsync sample_world)))
     = Inr (JStr ''this are synchronous file with add line'')"
proof -
  have a: "fst (fs_writeFileSync writeFilePath ''this are synchronous file with add line'' sample_world)
     = Inr Undefined"
    by (simp add: fs_writeFileSync_def store_def entry_at_def worlds paths)
  have b: "fault sample_world Read writeFilePath = None"
    by (simp add: worlds)
  from a b write_then_read [of sample_world Undefined] show ?thesis
    by blast
qed

text \<open>
  In \<open>sample_world\<close> the write succeeds; the read that follows returns \<^verbatim>\<open>undefined\<close>,
  not the text, and what it shows is \<^verbatim>\<open>hello\<close>, the content of the other file.
\<close>

theorem write_then_read_counterexample:
  "fst (fs_writeFileSync writeFilePath ''this are synchronous file with add line'' sample_world)
     = Inr Undefined \<and>
   fst (fileReadAsync (snd (writeFileAsync sample_world))) = Inr Undefined \<and>
   console (snd (fileReadAsync (snd (writeFileAsync sample_world))))
     = [[LVal (JStr ''synchronous file writen done'')],
        [LVal (JStr ''file content: ''), LVal (JStr ''hello'')]]"
proof -
  have a: "fst (fs_writeFileSync writeFilePath ''this are synchronous file with add line'' sample_world)
     = Inr Undefined"
    by (simp add: fs_writeFileSync_def store_def entry_at_def worlds paths)
  have b: "fst (fs_readFileSync readFilePath sample_world) = Inr (JStr ''hello'')"
    by (simp add: fs_readFileSync_def entry_at_def worlds paths)
  have c: "console sample_world = []"
    by (simp add: worlds)
  show ?thesis
    using writeFileAsync_then_fileReadAsync [of sample_world] by (simp add: a b c)
qed

section \<open>Watching a file that is not there\<close>





section \<open>Which wrappers can throw\<close>

text \<open>
  Four of the five wrappers return \<^verbatim>\<open>undefined\<close> in every world: the \<^verbatim>\<open>fs\<close> call is
  inside a \<^verbatim>\<open>try\<close>, or its error goes to a callback.
\<close>

lemma others_never_throw:
  "fst (fileReadAsync w) = Inr Undefined"
  "fst (writeFileAsync w) = Inr Undefined"
  "fst (appendFileSync text w) = Inr Undefined"
  "fst (deleteFileAsync w) = Inr Undefined"
proof -
  show "fst (fileReadAsync w) = Inr Undefined"
    by (simp add: fileReadAsync_eval)
  show "fst (writeFileAsync w) = Inr Undefined"
    by (auto simp: writeFileAsync_eval fs_writeFileSync_def split: prod.splits sum.splits
        dest: store_returns)
  show "fst (appendFileSync text w) = Inr Undefined"
    by (auto simp: appendFileSync_def control fileExistCheck_eval fs_appendFileSync_def
        split: prod.splits sum.splits dest: store_returns)
  show "fst (deleteFileAsync w) = Inr Undefined"
    by (simp add: deleteFileAsync_def control fileExistCheck_eval fs_unlink_def
        split: prod.splits sum.splits)
qed

text \<open>
  C10. The fifth, \<open>deleteFileSync\<close>, only looks whether the file is there before it
  calls \<^verbatim>\<open>fs.unlinkSync\<close>, and has no \<^verbatim>\<open>try\<close>. A removal that fails for another
  reason throws out of it: in \<open>locked_world\<close> the file is there and the removal is
  refused, in \<open>dir_world\<close> the path is a directory.
\<close>

theorem deleteFileSync_throws:
  "fst (fileExistCheck deleteFilePath locked_world) = Inr (JBool True) \<and>
   fst (deleteFileSync locked_world) = Inl EACCES \<and>
   fst (fileExistCheck deleteFilePath dir_world) = Inr (JBool True) \<and>
   fst (deleteFileSync dir_world) = Inl EISDIR"
  by (simp add: deleteFileSync_def control fileExistCheck_eval fs_unlinkSync_def
      entry_at_def worlds paths)

end
